theory Spec2Isabelle
  imports Complex_Main
begin

section \<open>DSR and CSTR demo notebooks of AR-tools\<close>

text \<open>
  The notebooks compute with numpy arrays of double-precision numbers. The embedding
  reads every number as a \<^typ>\<open>real\<close> and every arithmetic operation as the exact one:
  rounding, overflow and the special values of the machine format are not part of the
  model. All arrays of the first notebook hold the two concentrations \<open>[cA, cB]\<close>, so a
  concentration vector is a pair.
\<close>

subsection \<open>Two-component arrays\<close>

type_synonym vec = "real \<times> real"

text \<open>numpy's elementwise \<open>+\<close> and \<open>-\<close> on two arrays, and \<open>*\<close> of a scalar and an array.\<close>

definition vadd :: "vec \<Rightarrow> vec \<Rightarrow> vec" where
  "vadd u v = (fst u + fst v, snd u + snd v)"

definition vsub :: "vec \<Rightarrow> vec \<Rightarrow> vec" where
  "vsub u v = (fst u - fst v, snd u - snd v)"

definition smul :: "real \<Rightarrow> vec \<Rightarrow> vec" where
  "smul k v = (k * fst v, k * snd v)"

subsection \<open>Kinetics\<close>

text \<open>
  \<^verbatim>\<open>
  def rate_fn(C,t):
      cA = C[0]
      cB = C[1]
      k1 = 1.0
      k2 = 1.0
      rA = -k1*cA*cB
      rB = k1*cA*cB - k2*cB**2
      dC = sp.array([rA, rB])
      return dC
  \<close>
  The time argument may be anything (the CSTR cell passes an empty list), so its type is
  left open.
\<close>

definition rate_fn :: "vec \<Rightarrow> 't \<Rightarrow> vec" where
  "rate_fn C t =
     (let cA = fst C;
          cB = snd C;
          k1 = 1;
          k2 = 1;
          rA = - k1 * cA * cB;
          rB = k1 * cA * cB - k2 * cB ^ 2;
          dC = (rA, rB)
      in dC)"

subsection \<open>DSR right-hand side\<close>

text \<open>
  \<^verbatim>\<open>
  def dsr_fn(C,t, opts):
      alpha = opts[0]
      C0 = opts[1]
      dC = rate_fn(C,t) + alpha*(C0 - C)
      return dC
  \<close>
\<close>

definition dsr_fn :: "vec \<Rightarrow> 't \<Rightarrow> real \<times> vec \<Rightarrow> vec" where
  "dsr_fn C t opts =
     (let alpha = fst opts;
          C0 = snd opts;
          dC = vadd (rate_fn C t) (smul alpha (vsub C0 C))
      in dC)"

subsection \<open>Logarithmically spaced grids\<close>

text \<open>
  \<open>sp.linspace(start, stop, num)\<close> and \<open>sp.logspace(start, stop, num)\<close> are numpy
  functions (with the defaults \<open>endpoint=True\<close> and \<open>base=10.0\<close>). numpy computes
  \<^verbatim>\<open>
  div = num - 1
  y = arange(0, num)
  delta = stop - start
  if num > 1: y = y * (delta / div)
  y = y + start
  if num > 1: y[-1] = stop
  \<close>
  for \<open>linspace\<close>, and \<open>logspace\<close> raises the base to these exponents. numpy's local
  \<open>div\<close> is written \<open>dv\<close> below.
\<close>

definition linspace :: "real \<Rightarrow> real \<Rightarrow> nat \<Rightarrow> real list" where
  "linspace start stop num =
     (let dv = num - 1;
          y = map real [0..<num];
          delta = stop - start;
          y = (if num > 1 then map (\<lambda>v. v * (delta / real dv)) y else y);
          y = map (\<lambda>v. v + start) y
      in if num > 1 then y[num - 1 := stop] else y)"

definition logspace :: "real \<Rightarrow> real \<Rightarrow> nat \<Rightarrow> real list" where
  "logspace start stop num = map (\<lambda>v. 10 powr v) (linspace start stop num)"

subsection \<open>The CSTR locus cell\<close>

text \<open>
  \<^verbatim>\<open>
  cstr_ts = sp.logspace(-3,sp.log10(5e4),100)

  cstr_cf = sp.array([1.0,0.1])
  c_guess = cstr_cf

  cstr_cs = []
  for tau in cstr_ts:

      def cstr_fn(Ci):
          ri = rate_fn(Ci,[])
          f = cstr_cf + tau*ri - Ci
          return f

      #solve for CSTR solution
      Ci = scipy.optimize.newton_krylov(cstr_fn, c_guess, f_tol=1e-4)

      #update guess and add solution to cstr_cs array
      c_guess = Ci
      cstr_cs.append(Ci)

  cstr_cs = sp.array(cstr_cs)
  \<close>
\<close>

definition cstr_ts :: "real list" where
  "cstr_ts = logspace (- 3) (log 10 (5 * 10 ^ 4)) 100"

definition cstr_cf :: vec where
  "cstr_cf = (1.0, 0.1)"

text \<open>The closure \<open>cstr_fn\<close> reads the loop variable \<open>tau\<close> and the global \<open>cstr_cf\<close>.\<close>

definition cstr_fn :: "real \<Rightarrow> vec \<Rightarrow> vec" where
  "cstr_fn tau Ci =
     (let ri = rate_fn Ci ([] :: unit list);
          f = vsub (vadd cstr_cf (smul tau ri)) Ci
      in f)"

text \<open>
  The root-finder \<open>scipy.optimize.newton_krylov\<close> is an external collaborator: given a
  residual function, an initial guess and the tolerance \<open>f_tol\<close> it returns an array or
  raises (its interface raises on non-convergence), and it may write runtime warnings to
  stderr on the way. The cell has no \<open>try\<close>, so an exception ends the cell.
\<close>

datatype exn = IndexError | NoConvergence

type_synonym warning = string

type_synonym root_finder = "(vec \<Rightarrow> vec) \<Rightarrow> vec \<Rightarrow> real \<Rightarrow> exn + (warning list \<times> vec)"

text \<open>The variables the loop writes, and what has been printed to stderr so far.\<close>

record cell_state =
  c_guess :: vec
  cstr_cs :: "vec list"
  stderr :: "warning list"

fun cstr_loop :: "root_finder \<Rightarrow> real list \<Rightarrow> cell_state \<Rightarrow> exn + cell_state" where
  "cstr_loop newton_krylov [] s = Inr s"
| "cstr_loop newton_krylov (tau # taus) s =
     (case newton_krylov (cstr_fn tau) (c_guess s) (1 / 10 ^ 4) of
        Inl e \<Rightarrow> Inl e
      | Inr (w, Ci) \<Rightarrow>
          cstr_loop newton_krylov taus
            (s\<lparr>c_guess := Ci, cstr_cs := cstr_cs s @ [Ci], stderr := stderr s @ w\<rparr>))"

definition cstr_cell :: "root_finder \<Rightarrow> exn + cell_state" where
  "cstr_cell newton_krylov =
     cstr_loop newton_krylov cstr_ts \<lparr>c_guess = cstr_cf, cstr_cs = [], stderr = []\<rparr>"

text \<open>
  Stand-ins for the root-finder, used to run the loop on concrete inputs.

  \<open>raising_solver\<close> never converges and raises.

  \<open>candidate_solver\<close> tries the initial guess and then the point \<open>candidate\<close>, and
  returns the first of the two at which the residual it was given is exactly zero.

  \<open>drift_solver\<close> prints a warning and moves the guess by the first component of the
  residual it was given, taken at \<open>[1, 1]\<close>. For the residual of residence time \<open>tau\<close>
  that component is \<open>- tau\<close>, so the answer is the guess with \<open>tau\<close> added to \<open>cA\<close>:
  it depends on the residual and on the guess, and it is not a root. \<open>drift_locus\<close> is
  the sequence of its answers along the grid, started at the feed.

  \<open>tiring_solver\<close> does the same while the guess has \<open>cA \<le> 1\<close> and raises afterwards.
\<close>

definition raising_solver :: root_finder where
  "raising_solver F xin f_tol = Inl NoConvergence"

definition candidate :: vec where
  "candidate = (0.5, 0.3)"

definition candidate_solver :: root_finder where
  "candidate_solver F xin f_tol =
     (if F xin = (0, 0) then Inr ([], xin)
      else if F candidate = (0, 0) then Inr ([], candidate)
      else Inl NoConvergence)"

definition drift_solver :: root_finder where
  "drift_solver F xin f_tol = Inr ([''RuntimeWarning''], (fst xin - fst (F (1, 1)), snd xin))"

definition drift_locus :: "vec list" where
  "drift_locus = map (\<lambda>i. (1 + sum_list (take (Suc i) cstr_ts), 0.1)) [0..<length cstr_ts]"

definition tiring_solver :: root_finder where
  "tiring_solver F xin f_tol =
     (if fst xin \<le> 1 then drift_solver F xin f_tol else Inl NoConvergence)"

subsection \<open>The interactive DSR plot\<close>

text \<open>
  \<^verbatim>\<open>
  def plot_fn(t_end=1000.0, alpha=0.0, Cf_x=1.0, Cf_y=0.1):
      Cf = sp.array([Cf_x, Cf_y])
      ts = sp.logspace(-3,sp.log10(t_end),100)
      C0 = cstr_cf
      dsr_opts = (alpha, C0)
      dsr_cs = odeint(dsr_fn, Cf, ts, args=(dsr_opts,) )
      plt.figure()
      plt.hold(True)
      plt.plot(cstr_cs[:,0],cstr_cs[:,1], 'bx')
      plt.plot(dsr_cs[:,0],dsr_cs[:,1], 'g')
      plt.plot(dsr_cs[-1,0], dsr_cs[-1,1], 'ro')
      plt.plot(dsr_cs[0,0], dsr_cs[0,1], 'y^')
      plt.xlabel('cA (mol/L)')
      plt.ylabel('cB (mol/L)')
      plt.axis([0,1,0,0.7])
      plt.show()
  \<close>
  The figure is the list of plotting calls. The integrator \<open>odeint\<close> is external: it gets
  the right-hand side, the initial state, the time grid and the extra argument that it
  passes on to the right-hand side, and returns one row per grid point. The precomputed
  locus is the global \<open>cstr_cs\<close> of the CSTR cell. Indexing an array without rows raises.
  The slider offers \<open>t_end\<close> from 1 to 100; for \<open>t_end \<le> 0\<close> numpy's \<open>log10\<close> yields
  \<open>-inf\<close> or \<open>nan\<close>, which the real-number model does not represent.
\<close>

datatype plot_cmd =
    Figure
  | Hold bool
  | Plot "real list" "real list" string
  | XLabel string
  | YLabel string
  | Axis "real list"
  | Show

type_synonym integrator =
  "(vec \<Rightarrow> real \<Rightarrow> real \<times> vec \<Rightarrow> vec) \<Rightarrow> vec \<Rightarrow> real list \<Rightarrow> real \<times> vec \<Rightarrow> vec list"

definition draw_figure :: "vec list \<Rightarrow> vec list \<Rightarrow> exn + plot_cmd list" where
  "draw_figure locus dsr_cs =
     (if locus = [] \<or> dsr_cs = [] then Inl IndexError
      else Inr
        [Figure,
         Hold True,
         Plot (map fst locus) (map snd locus) ''bx'',
         Plot (map fst dsr_cs) (map snd dsr_cs) ''g'',
         Plot [fst (last dsr_cs)] [snd (last dsr_cs)] ''ro'',
         Plot [fst (hd dsr_cs)] [snd (hd dsr_cs)] ''y^'',
         XLabel ''cA (mol/L)'',
         YLabel ''cB (mol/L)'',
         Axis [0, 1, 0, 0.7],
         Show])"

definition plot_fn ::
  "integrator \<Rightarrow> vec list \<Rightarrow> real \<Rightarrow> real \<Rightarrow> real \<Rightarrow> real \<Rightarrow> exn + plot_cmd list" where
  "plot_fn odeint locus t_end alpha Cf_x Cf_y =
     (let Cf = (Cf_x, Cf_y);
          ts = logspace (- 3) (log 10 t_end) 100;
          C0 = cstr_cf;
          dsr_opts = (alpha, C0);
          dsr_cs = odeint dsr_fn Cf ts dsr_opts
      in draw_figure locus dsr_cs)"

text \<open>A stand-in integrator for concrete runs: the state stays at the initial one.\<close>

definition frozen_odeint :: integrator where
  "frozen_odeint f y0 ts args = map (\<lambda>t. y0) ts"

subsection \<open>The bounding hyperplane demo\<close>

text \<open>
  \<^verbatim>\<open>
  def plot_fn(bi=0.5):
      A = sp.array([[-1.0, 0.0],
                   [0.0, -1.0],
                   [1.0, 1.0],
                   [-0.1, 0.8]])
      b = sp.array([0., 0., 1., bi]);
      P_cs = artools.con2vert(A, b)
      fig = artools.plotHplanes(A, b)
      ax = fig.gca()
      fig = artools.plotRegion2D(P_cs, ax=ax, alpha=0.3, plot_verts=True)
      ax.set_xlim([-0.1, 1.1])
      ax.set_ylim([-0.1, 1.1])
      ax.set_xlabel("cA (mol/L)")
      ax.set_ylabel("cB (mol/L)")
      plt.show(fig)
  \<close>
  The module \<open>artools\<close> is not part of the notebook; its three functions are parameters
  of the model, as is matplotlib's \<open>gca\<close>. The second notebook has its own \<open>plot_fn\<close>,
  named \<open>plot_fn_hplanes\<close> here.
\<close>

record ('v, 'fig, 'ax) artools =
  con2vert :: "real list list \<Rightarrow> real list \<Rightarrow> 'v"
  plotHplanes :: "real list list \<Rightarrow> real list \<Rightarrow> 'fig"
  plotRegion2D :: "'v \<Rightarrow> 'ax \<Rightarrow> real \<Rightarrow> bool \<Rightarrow> 'fig"

record ('fig, 'ax) shown_figure =
  shown :: 'fig
  axes :: 'ax
  xlim :: "real list"
  ylim :: "real list"
  xlabel :: string
  ylabel :: string

definition plot_fn_hplanes ::
  "('v, 'fig, 'ax) artools \<Rightarrow> ('fig \<Rightarrow> 'ax) \<Rightarrow> real \<Rightarrow> ('fig, 'ax) shown_figure" where
  "plot_fn_hplanes artools gca bi =
     (let A = [[- 1.0, 0.0],
               [0.0, - 1.0],
               [1.0, 1.0],
               [- 0.1, 0.8]];
          b = [0, 0, 1, bi];
          P_cs = con2vert artools A b;
          fig = plotHplanes artools A b;
          ax = gca fig;
          fig = plotRegion2D artools P_cs ax 0.3 True
      in \<lparr>shown = fig, axes = ax,
          xlim = [- 0.1, 1.1], ylim = [- 0.1, 1.1],
          xlabel = ''cA (mol/L)'', ylabel = ''cB (mol/L)''\<rparr>)"

section \<open>Properties of the kinetics and of the DSR equation\<close>

lemma rate_fn_components:
  "rate_fn C t = (- (fst C * snd C), fst C * snd C - snd C ^ 2)"
  by (simp add: rate_fn_def Let_def)

text \<open>
  Claim C3. For every concentration vector \<open>C\<close>, time \<open>t\<close>, mixing factor \<open>alpha\<close> and
  side-stream composition \<open>C0\<close>, the DSR right-hand side is the kinetics rate plus the
  linear relaxation term \<open>alpha * (C0 - C)\<close>; componentwise, the rate of each species
  plus \<open>alpha\<close> times the difference of the side-stream and the current concentration.
\<close>

theorem dsr_fn_rate_plus_relaxation:
  "dsr_fn C t (alpha, C0) = vadd (rate_fn C t) (smul alpha (vsub C0 C))
   \<and> fst (dsr_fn C t (alpha, C0)) = fst (rate_fn C t) + alpha * (fst C0 - fst C)
   \<and> snd (dsr_fn C t (alpha, C0)) = snd (rate_fn C t) + alpha * (snd C0 - snd C)"
  by (simp add: dsr_fn_def Let_def vadd_def smul_def vsub_def)

text \<open>
  Claim C6. With mixing factor \<open>alpha = 0\<close> the DSR right-hand side is the plain kinetics
  rate, for every concentration vector, time and side-stream composition.
\<close>

theorem dsr_fn_alpha_zero:
  "dsr_fn C t (0, C0) = rate_fn C t"
  by (simp add: dsr_fn_def Let_def vadd_def smul_def vsub_def)

text \<open>
  Claim C8. The kinetics function ignores its time argument: two calls with the same
  concentration vector and any two times (of any type) return the same rate, which is
  \<open>rA = -k1*cA*cB\<close> and \<open>rB = k1*cA*cB - k2*cB^2\<close> with \<open>k1 = k2 = 1\<close>.
\<close>

theorem rate_fn_time_independent:
  "rate_fn C t1 = rate_fn C t2
   \<and> rate_fn (cA, cB) t1 = (- 1 * cA * cB, 1 * cA * cB - 1 * cB ^ 2)"
  by (simp add: rate_fn_def Let_def)

text \<open>
  Claim C10. A side-stream whose composition equals the current concentration has no
  effect: for every mixing factor \<open>alpha\<close>, the DSR right-hand side at \<open>C\<close> with
  side-stream \<open>C\<close> is the kinetics rate at \<open>C\<close>.
\<close>

theorem dsr_fn_side_stream_at_C:
  "dsr_fn C t (alpha, C) = rate_fn C t"
  by (simp add: dsr_fn_def Let_def vadd_def smul_def vsub_def)

section \<open>The residence-time grid\<close>

lemma length_linspace: "length (linspace start stop num) = num"
  by (simp add: linspace_def Let_def)

lemma linspace_nth:
  assumes "1 < num" "i < num"
  shows "linspace start stop num ! i = start + real i * ((stop - start) / real (num - 1))"
proof (cases "i = num - 1")
  case True
  with assms show ?thesis by (simp add: linspace_def Let_def)
next
  case False
  with assms show ?thesis by (simp add: linspace_def Let_def)
qed

lemma linspace_map:
  assumes "1 < num"
  shows "linspace start stop num = map (\<lambda>i. start + real i * ((stop - start) / real (num - 1))) [0..<num]"
proof (rule nth_equalityI)
  show "length (linspace start stop num) =
        length (map (\<lambda>i. start + real i * ((stop - start) / real (num - 1))) [0..<num])"
    by (simp add: length_linspace)
next
  fix i assume "i < length (linspace start stop num)"
  then have i: "i < num" by (simp add: length_linspace)
  then have "map (\<lambda>i. start + real i * ((stop - start) / real (num - 1))) [0..<num] ! i
             = start + real i * ((stop - start) / real (num - 1))"
    by (simp del: of_nat_diff)
  with linspace_nth [OF assms i, of start stop]
  show "linspace start stop num ! i =
        map (\<lambda>i. start + real i * ((stop - start) / real (num - 1))) [0..<num] ! i"
    by (simp only:)
qed

lemma logspace_map:
  assumes "1 < num"
  shows "logspace start stop num = map (\<lambda>i. 10 powr (start + real i * ((stop - start) / real (num - 1)))) [0..<num]"
  unfolding logspace_def linspace_map [OF assms] map_map comp_def ..

lemma logspace_hd: "1 < num \<Longrightarrow> hd (logspace start stop num) = 10 powr start"
  by (simp add: logspace_map hd_map upt_conv_Cons)

lemma logspace_last: "1 < num \<Longrightarrow> last (logspace start stop num) = 10 powr stop"
  by (simp add: logspace_map last_map)

lemma logspace_increasing:
  assumes "1 < num" "start < stop"
  shows "sorted_wrt (<) (logspace start stop num)"
proof -
  define step where "step = (stop - start) / real (num - 1)"
  have pos: "0 < step" using assms by (simp add: step_def)
  have "sorted_wrt (\<lambda>i j. 10 powr (start + real i * step)
                         < 10 powr (start + real j * step)) [0..<num]"
  proof (rule sorted_wrt_mono_rel [OF _ sorted_wrt_upt])
    fix i j :: nat assume "i < j"
    then have "real i * step < real j * step"
      using pos by (intro mult_strict_right_mono) simp_all
    then show "10 powr (start + real i * step) < 10 powr (start + real j * step)"
      by simp
  qed
  then show ?thesis
    unfolding logspace_map [OF assms(1)] sorted_wrt_map step_def .
qed

lemma length_logspace: "length (logspace start stop num) = num"
  by (simp add: logspace_def length_linspace)

lemma ten_powr_minus_three: "10 powr (- 3) = (1 / 1000 :: real)"
  by (simp add: powr_minus_divide)

lemma log_stop_gt: "- 3 < log 10 50000"
proof -
  have "(0::real) \<le> log 10 50000" by simp
  then show ?thesis by linarith
qed

text \<open>
  Claim C5. The residence-time grid \<open>cstr_ts\<close> has exactly 100 values, logarithmically
  spaced (the exponents of 10 are equally spaced), the first is \<open>1e-3\<close>, the last is
  \<open>5e4\<close>, and the sequence is strictly increasing.
\<close>

theorem cstr_ts_grid:
  "cstr_ts = map (\<lambda>i. 10 powr (- 3 + real i * ((log 10 50000 + 3) / 99))) [0..<100]
  \<and> length cstr_ts = 100 \<and> hd cstr_ts = 1 / 1000 \<and> last cstr_ts = 50000 \<and> sorted_wrt (<) cstr_ts"
proof -
  have a: "cstr_ts = map (\<lambda>i. 10 powr (- 3 + real i * ((log 10 50000 + 3) / 99))) [0..<100]"
    unfolding cstr_ts_def by (subst logspace_map) simp_all
  have b: "length cstr_ts = 100" by (simp add: cstr_ts_def length_logspace)
  have c: "hd cstr_ts = 1 / 1000"
    unfolding cstr_ts_def by (subst logspace_hd) (simp_all add: ten_powr_minus_three)
  have d: "last cstr_ts = 50000"
    unfolding cstr_ts_def by (subst logspace_last) simp_all
  have e: "sorted_wrt (<) cstr_ts"
    unfolding cstr_ts_def by (rule logspace_increasing) (simp_all add: log_stop_gt)
  from a b c d e show ?thesis by blast
qed

section \<open>The CSTR locus loop\<close>

lemma cstr_cf_val: "cstr_cf = (1, 1 / 10)"
  by (simp add: cstr_cf_def)

lemma cstr_fn_components:
  "cstr_fn tau C = (1 + tau * (- (fst C * snd C)) - fst C,
                    1 / 10 + tau * (fst C * snd C - snd C ^ 2) - snd C)"
  by (simp add: cstr_fn_def Let_def cstr_cf_def rate_fn_components vadd_def vsub_def smul_def)

lemma cstr_loop_raising:
  "ts \<noteq> [] \<Longrightarrow> cstr_loop raising_solver ts s = Inl NoConvergence"
  by (cases ts) (simp_all add: raising_solver_def)

lemma length_cstr_ts: "length cstr_ts = 100"
  by (simp add: cstr_ts_def length_logspace)

lemma cstr_ts_first: "cstr_ts ! 0 = 1 / 1000"
proof -
  have "cstr_ts \<noteq> []" using length_cstr_ts by auto
  then have "cstr_ts ! 0 = hd cstr_ts" by (simp add: hd_conv_nth)
  also have "\<dots> = 1 / 1000"
    unfolding cstr_ts_def by (subst logspace_hd) (simp_all add: ten_powr_minus_three)
  finally show ?thesis .
qed

text \<open>
  The loop is determined by the root-finder's answers along the chain of calls it makes:
  the call for the first residence time starts from the guess the loop was entered with,
  the call for each later one from the answer before it. If all these calls return, the
  loop ends with the answers appended to the locus, the last answer as the guess and the
  warnings on stderr; if the calls return up to some residence time and the next one
  raises, the loop ends with that exception.
\<close>

lemma cstr_loop_chain:
  assumes "length xs = length ts" and "length ws = length ts"
    and "\<forall>i<length ts. solver (cstr_fn (ts ! i)) ((c_guess s # xs) ! i) (1 / 10 ^ 4)
                          = Inr (ws ! i, xs ! i)"
  shows "cstr_loop solver ts s =
           Inr (s\<lparr>c_guess := last (c_guess s # xs), cstr_cs := cstr_cs s @ xs,
                  stderr := stderr s @ concat ws\<rparr>)"
  using assms
proof (induction ts arbitrary: s xs ws)
  case Nil
  then show ?case by simp
next
  case (Cons tau taus)
  from Cons.prems(1) obtain x xs' where xs: "xs = x # xs'" and lx: "length xs' = length taus"
    by (cases xs) auto
  from Cons.prems(2) obtain w ws' where ws: "ws = w # ws'" and lw: "length ws' = length taus"
    by (cases ws) auto
  from Cons.prems(3) [rule_format, of 0]
  have call: "solver (cstr_fn tau) (c_guess s) (1 / 10 ^ 4) = Inr (w, x)"
    by (simp add: xs ws)
  let ?s1 = "s\<lparr>c_guess := x, cstr_cs := cstr_cs s @ [x], stderr := stderr s @ w\<rparr>"
  have rest: "\<forall>i<length taus. solver (cstr_fn (taus ! i)) ((c_guess ?s1 # xs') ! i) (1 / 10 ^ 4)
                          = Inr (ws' ! i, xs' ! i)"
  proof (intro allI impI)
    fix i assume "i < length taus"
    with Cons.prems(3) [rule_format, of "Suc i"]
    show "solver (cstr_fn (taus ! i)) ((c_guess ?s1 # xs') ! i) (1 / 10 ^ 4)
                          = Inr (ws' ! i, xs' ! i)"
      by (simp add: xs ws)
  qed
  from Cons.IH [OF lx lw rest] call show ?case
    by (simp add: xs ws)
qed

lemma cstr_loop_chain_raise:
  assumes "k < length ts" and "length xs = k" and "length ws = k"
    and "\<forall>i<k. solver (cstr_fn (ts ! i)) ((c_guess s # xs) ! i) (1 / 10 ^ 4)
                          = Inr (ws ! i, xs ! i)"
    and "solver (cstr_fn (ts ! k)) ((c_guess s # xs) ! k) (1 / 10 ^ 4) = Inl e"
  shows "cstr_loop solver ts s = Inl e"
  using assms
proof (induction ts arbitrary: s xs ws k)
  case Nil
  then show ?case by simp
next
  case (Cons tau taus)
  show ?case
  proof (cases k)
    case 0
    with Cons.prems(5) show ?thesis by simp
  next
    case (Suc k')
    from Cons.prems(2) Suc obtain x xs' where xs: "xs = x # xs'" and lx: "length xs' = k'"
      by (cases xs) auto
    from Cons.prems(3) Suc obtain w ws' where ws: "ws = w # ws'" and lw: "length ws' = k'"
      by (cases ws) auto
    from Cons.prems(4) [rule_format, of 0] Suc
    have call: "solver (cstr_fn tau) (c_guess s) (1 / 10 ^ 4) = Inr (w, x)"
      by (simp add: xs ws)
    let ?s1 = "s\<lparr>c_guess := x, cstr_cs := cstr_cs s @ [x], stderr := stderr s @ w\<rparr>"
    have k': "k' < length taus" using Cons.prems(1) Suc by simp
    have rest: "\<forall>i<k'. solver (cstr_fn (taus ! i)) ((c_guess ?s1 # xs') ! i) (1 / 10 ^ 4)
                          = Inr (ws' ! i, xs' ! i)"
    proof (intro allI impI)
      fix i assume "i < k'"
      with Cons.prems(4) [rule_format, of "Suc i"] Suc
      show "solver (cstr_fn (taus ! i)) ((c_guess ?s1 # xs') ! i) (1 / 10 ^ 4)
                          = Inr (ws' ! i, xs' ! i)"
        by (simp add: xs ws)
    qed
    have fail: "solver (cstr_fn (taus ! k')) ((c_guess ?s1 # xs') ! k') (1 / 10 ^ 4) = Inl e"
      using Cons.prems(5) Suc by (simp add: xs)
    from Cons.IH [OF k' lx lw rest fail] call show ?thesis by simp
  qed
qed

lemma cstr_fn_explicit:
  "cstr_fn tau = (\<lambda>C. vsub (vadd (1.0, 0.1) (smul tau (rate_fn C t))) C)"
  by (rule ext) (simp add: cstr_fn_def Let_def cstr_cf_def rate_fn_components)

lemma cstr_fn_at_one: "fst (cstr_fn tau (1, 1)) = - tau"
  by (simp add: cstr_fn_components)

lemma drift_solver_cstr_fn:
  "drift_solver (cstr_fn tau) g f_tol = Inr ([''RuntimeWarning''], (fst g + tau, snd g))"
  by (simp add: drift_solver_def cstr_fn_at_one)

lemma length_drift_locus: "length drift_locus = length cstr_ts"
  by (simp add: drift_locus_def)

lemma drift_locus_nth:
  "i < length cstr_ts \<Longrightarrow> drift_locus ! i = (1 + sum_list (take (Suc i) cstr_ts), 1 / 10)"
  by (simp add: drift_locus_def)

lemma drift_chain:
  assumes "i < length cstr_ts"
  shows "drift_solver (cstr_fn (cstr_ts ! i)) ((cstr_cf # drift_locus) ! i) (1 / 10 ^ 4)
           = Inr (replicate (length cstr_ts) [''RuntimeWarning''] ! i, drift_locus ! i)"
proof (cases i)
  case 0
  with assms show ?thesis
    by (simp add: drift_solver_cstr_fn drift_locus_nth cstr_cf_val take_Suc_conv_app_nth)
next
  case (Suc j)
  with assms have j: "j < length cstr_ts" by simp
  from assms Suc show ?thesis
    by (simp add: drift_solver_cstr_fn drift_locus_nth j take_Suc_conv_app_nth [of "Suc j"])
qed

lemma drift_locus_first: "drift_locus ! 0 = (1001 / 1000, 1 / 10)"
  using length_cstr_ts cstr_ts_first
  by (simp add: drift_locus_nth take_Suc_conv_app_nth)

lemma candidate_solver_exact:
  "\<forall>F g w x. candidate_solver F g (1 / 10 ^ 4) = Inr (w, x) \<longrightarrow> F x = (0, 0)"
  by (auto simp: candidate_solver_def split: if_splits)

lemma candidate_val: "candidate = (1 / 2, 3 / 10)"
  by (simp add: candidate_def)

lemma candidate_solver_call:
  "candidate_solver (\<lambda>C. vsub (vadd (1.0, 0.1) (smul (10 / 3) (rate_fn C ()))) C) cstr_cf
     (1 / 10 ^ 4) = Inr ([], (1 / 2, 3 / 10))"
  by (simp add: candidate_solver_def candidate_val cstr_cf_val rate_fn_components vadd_def
      vsub_def smul_def power2_eq_square)

lemma drift_chain_explicit:
  "\<forall>i<length cstr_ts.
     drift_solver (\<lambda>C. vsub (vadd (1.0, 0.1) (smul (cstr_ts ! i) (rate_fn C ()))) C)
       ((cstr_cf # drift_locus) ! i) (1 / 10 ^ 4)
     = Inr (replicate (length cstr_ts) [''RuntimeWarning''] ! i, drift_locus ! i)"
  using drift_chain by (simp only: cstr_fn_explicit [where t = "()"]) blast

lemma cstr_ts_pos: "i < length cstr_ts \<Longrightarrow> 0 < cstr_ts ! i"
  by (simp add: cstr_ts_def length_logspace logspace_def length_linspace)

lemma drift_locus_second: "fst (drift_locus ! 0) < fst (drift_locus ! Suc 0)"
proof -
  have "0 < cstr_ts ! Suc 0" by (rule cstr_ts_pos) (simp add: length_cstr_ts)
  then show ?thesis
    using length_cstr_ts
    by (simp add: drift_locus_nth take_Suc_conv_app_nth [of "Suc 0"])
qed

text \<open>
  Claim C1. For every residence time \<open>tau\<close> of the sequence the loop runs over, the
  function handed to the root-finder is exactly \<open>f(C) = Cf + tau * rate_fn(C) - C\<close> with
  \<open>Cf = [1.0, 0.1]\<close> (whatever time is given to \<open>rate_fn\<close>): if \<open>xs\<close> are the
  root-finder's answers for these functions, each from the guess the continuation gives
  it, then the loop started as in the cell ends with the locus \<open>xs\<close>. If moreover the
  root-finder only returns exact roots of the function it is given, every locus entry
  satisfies \<open>Cf + tau * rate(C) - C = 0\<close>, that is \<open>1 - tau*cA*cB - cA = 0\<close> and
  \<open>0.1 + tau*(cA*cB - cB^2) - cB = 0\<close>. The cell is this loop on the grid \<open>cstr_ts\<close>.
\<close>

theorem cstr_fn_residual:
  assumes "length xs = length ts" and "length ws = length ts"
    and "\<forall>i<length ts.
           solver (\<lambda>C. vsub (vadd (1.0, 0.1) (smul (ts ! i) (rate_fn C t))) C)
                  ((cstr_cf # xs) ! i) (1 / 10 ^ 4) = Inr (ws ! i, xs ! i)"
  shows "cstr_loop solver ts \<lparr>c_guess = cstr_cf, cstr_cs = [], stderr = []\<rparr>
           = Inr \<lparr>c_guess = last (cstr_cf # xs), cstr_cs = xs, stderr = concat ws\<rparr>
     \<and> ((\<forall>F g w x. solver F g (1 / 10 ^ 4) = Inr (w, x) \<longrightarrow> F x = (0, 0)) \<longrightarrow>
          (\<forall>i<length ts.
             vsub (vadd (1.0, 0.1) (smul (ts ! i) (rate_fn (xs ! i) t))) (xs ! i) = (0, 0)
             \<and> 1 + ts ! i * (- (fst (xs ! i) * snd (xs ! i))) - fst (xs ! i) = 0
             \<and> 1 / 10 + ts ! i * (fst (xs ! i) * snd (xs ! i) - snd (xs ! i) ^ 2)
                 - snd (xs ! i) = 0))"
proof -
  let ?s0 = "\<lparr>c_guess = cstr_cf, cstr_cs = [], stderr = []\<rparr>"
  have chain: "\<forall>i<length ts. solver (cstr_fn (ts ! i)) ((c_guess ?s0 # xs) ! i) (1 / 10 ^ 4)
                 = Inr (ws ! i, xs ! i)"
    using assms(3) by (simp add: cstr_fn_explicit [where t = t])
  have run: "cstr_loop solver ts ?s0
           = Inr \<lparr>c_guess = last (cstr_cf # xs), cstr_cs = xs, stderr = concat ws\<rparr>"
    using cstr_loop_chain [of xs ts ws solver ?s0, OF assms(1) assms(2) chain] by simp
  have roots: "vsub (vadd (1.0, 0.1) (smul (ts ! i) (rate_fn (xs ! i) t))) (xs ! i) = (0, 0)
             \<and> 1 + ts ! i * (- (fst (xs ! i) * snd (xs ! i))) - fst (xs ! i) = 0
             \<and> 1 / 10 + ts ! i * (fst (xs ! i) * snd (xs ! i) - snd (xs ! i) ^ 2)
                 - snd (xs ! i) = 0"
    if exact: "\<forall>F g w x. solver F g (1 / 10 ^ 4) = Inr (w, x) \<longrightarrow> F x = (0, 0)"
      and i: "i < length ts" for i
  proof -
    from chain i have "solver (cstr_fn (ts ! i)) ((c_guess ?s0 # xs) ! i) (1 / 10 ^ 4)
                 = Inr (ws ! i, xs ! i)" by blast
    with exact have z: "cstr_fn (ts ! i) (xs ! i) = (0, 0)" by blast
    then have "vsub (vadd (1.0, 0.1) (smul (ts ! i) (rate_fn (xs ! i) t))) (xs ! i) = (0, 0)"
      by (simp add: cstr_fn_explicit [where t = t])
    moreover from z have "1 + ts ! i * (- (fst (xs ! i) * snd (xs ! i))) - fst (xs ! i) = 0
             \<and> 1 / 10 + ts ! i * (fst (xs ! i) * snd (xs ! i) - snd (xs ! i) ^ 2)
                 - snd (xs ! i) = 0"
      by (simp add: cstr_fn_components)
    ultimately show ?thesis by blast
  qed
  from run roots show ?thesis by blast
qed

text \<open>
  At \<open>tau = 10/3\<close> the root-finder that tests candidates finds the exact root
  \<open>[1/2, 3/10]\<close> of the residual it is handed, and the loop stores it; on the grid of
  the cell, the root-finder that drifts by the residual gives the locus \<open>drift_locus\<close>,
  whose first entry is the feed moved by the first residence time \<open>1e-3\<close>.
\<close>

theorem cstr_fn_residual_witness:
  "candidate_solver (\<lambda>C. vsub (vadd (1.0, 0.1) (smul (10 / 3) (rate_fn C ()))) C) cstr_cf
     (1 / 10 ^ 4) = Inr ([], (1 / 2, 3 / 10))
   \<and> cstr_loop candidate_solver [10 / 3] \<lparr>c_guess = cstr_cf, cstr_cs = [], stderr = []\<rparr>
       = Inr \<lparr>c_guess = (1 / 2, 3 / 10), cstr_cs = [(1 / 2, 3 / 10)], stderr = []\<rparr>
   \<and> vsub (vadd (1.0, 0.1) (smul (10 / 3) (rate_fn (1 / 2, 3 / 10) ()))) (1 / 2, 3 / 10) = (0, 0)
   \<and> cstr_cell drift_solver
       = Inr \<lparr>c_guess = last drift_locus, cstr_cs = drift_locus,
              stderr = concat (replicate (length cstr_ts) [''RuntimeWarning''])\<rparr>
   \<and> drift_locus ! 0 = (1001 / 1000, 1 / 10)"
proof -
  have chain1: "\<forall>i<length [10 / 3 :: real].
      candidate_solver (\<lambda>C. vsub (vadd (1.0, 0.1) (smul ([10 / 3] ! i) (rate_fn C ()))) C)
        ((cstr_cf # [(1 / 2, 3 / 10)]) ! i) (1 / 10 ^ 4)
      = Inr ([[]] ! i, [(1 / 2, 3 / 10)] ! i)"
    using candidate_solver_call by simp
  have a: "cstr_loop candidate_solver [10 / 3] \<lparr>c_guess = cstr_cf, cstr_cs = [], stderr = []\<rparr>
       = Inr \<lparr>c_guess = (1 / 2, 3 / 10), cstr_cs = [(1 / 2, 3 / 10)], stderr = []\<rparr>
     \<and> vsub (vadd (1.0, 0.1) (smul (10 / 3) (rate_fn (1 / 2, 3 / 10) ()))) (1 / 2, 3 / 10) = (0, 0)"
    using cstr_fn_residual [of "[(1 / 2, 3 / 10)]" "[10 / 3]" "[[]]" candidate_solver "()",
        OF _ _ chain1] candidate_solver_exact
    by simp
  have ne: "drift_locus \<noteq> []" using length_drift_locus length_cstr_ts by auto
  have b: "cstr_cell drift_solver
       = Inr \<lparr>c_guess = last drift_locus, cstr_cs = drift_locus,
              stderr = concat (replicate (length cstr_ts) [''RuntimeWarning''])\<rparr>"
    using cstr_fn_residual [of drift_locus cstr_ts
        "replicate (length cstr_ts) [''RuntimeWarning'']" drift_solver "()",
        OF length_drift_locus _ drift_chain_explicit] ne
    by (simp add: cstr_cell_def)
  from candidate_solver_call a b drift_locus_first show ?thesis by blast
qed

text \<open>
  Claim C2. Continuation seeding: if the root-finder's answer for the first residence
  time from the initial guess \<open>cstr_cf\<close> is \<open>xs ! 0\<close>, and its answer for each later
  residence time from the solution \<open>xs ! i\<close> of the residence time just before is
  \<open>xs ! Suc i\<close>, then the cell ends with exactly the locus \<open>xs\<close>: one solution per
  residence time (100 of them), in order, and the last one as the guess.
\<close>

theorem cstr_cell_continuation:
  assumes "length xs = length cstr_ts" and "length ws = length cstr_ts"
    and "solver (cstr_fn (cstr_ts ! 0)) cstr_cf (1 / 10 ^ 4) = Inr (ws ! 0, xs ! 0)"
    and "\<forall>i. Suc i < length cstr_ts \<longrightarrow>
           solver (cstr_fn (cstr_ts ! Suc i)) (xs ! i) (1 / 10 ^ 4) = Inr (ws ! Suc i, xs ! Suc i)"
  shows "cstr_cell solver = Inr \<lparr>c_guess = last xs, cstr_cs = xs, stderr = concat ws\<rparr>
     \<and> length xs = 100"
proof -
  let ?s0 = "\<lparr>c_guess = cstr_cf, cstr_cs = [], stderr = []\<rparr>"
  have chain: "\<forall>i<length cstr_ts. solver (cstr_fn (cstr_ts ! i)) ((c_guess ?s0 # xs) ! i)
                 (1 / 10 ^ 4) = Inr (ws ! i, xs ! i)"
  proof (intro allI impI)
    fix i assume "i < length cstr_ts"
    then show "solver (cstr_fn (cstr_ts ! i)) ((c_guess ?s0 # xs) ! i)
                 (1 / 10 ^ 4) = Inr (ws ! i, xs ! i)"
      using assms(3) assms(4) by (cases i) simp_all
  qed
  have ne: "xs \<noteq> []" using assms(1) length_cstr_ts by auto
  from cstr_loop_chain [of xs cstr_ts ws solver ?s0, OF assms(1) assms(2) chain] ne assms(1)
    length_cstr_ts
  show ?thesis by (simp add: cstr_cell_def)
qed

text \<open>
  The cell with the root-finder that drifts by the residual: the first call starts from
  the feed, the second from the first answer (which is not the feed), and the answers
  differ.
\<close>

theorem cstr_cell_continuation_witness:
  "drift_solver (cstr_fn (cstr_ts ! 0)) cstr_cf (1 / 10 ^ 4)
     = Inr ([''RuntimeWarning''], drift_locus ! 0)
   \<and> Suc 0 < length cstr_ts
   \<and> drift_solver (cstr_fn (cstr_ts ! Suc 0)) (drift_locus ! 0) (1 / 10 ^ 4)
     = Inr ([''RuntimeWarning''], drift_locus ! Suc 0)
   \<and> drift_locus ! 0 = (1001 / 1000, 1 / 10)
   \<and> fst (drift_locus ! 0) < fst (drift_locus ! Suc 0)
   \<and> cstr_cell drift_solver
       = Inr \<lparr>c_guess = last drift_locus, cstr_cs = drift_locus,
              stderr = concat (replicate (length cstr_ts) [''RuntimeWarning''])\<rparr>
   \<and> length drift_locus = 100"
proof -
  have l1: "length (replicate (length cstr_ts) [''RuntimeWarning'']) = length cstr_ts" by simp
  have p0: "0 < length cstr_ts" and p1: "Suc 0 < length cstr_ts"
    by (simp_all add: length_cstr_ts)
  have c0: "drift_solver (cstr_fn (cstr_ts ! 0)) cstr_cf (1 / 10 ^ 4)
     = Inr (replicate (length cstr_ts) [''RuntimeWarning''] ! 0, drift_locus ! 0)"
    using drift_chain [OF p0] by simp
  have cs: "\<forall>i. Suc i < length cstr_ts \<longrightarrow>
           drift_solver (cstr_fn (cstr_ts ! Suc i)) (drift_locus ! i) (1 / 10 ^ 4)
           = Inr (replicate (length cstr_ts) [''RuntimeWarning''] ! Suc i, drift_locus ! Suc i)"
  proof (intro allI impI)
    fix i assume "Suc i < length cstr_ts"
    from drift_chain [OF this]
    show "drift_solver (cstr_fn (cstr_ts ! Suc i)) (drift_locus ! i) (1 / 10 ^ 4)
           = Inr (replicate (length cstr_ts) [''RuntimeWarning''] ! Suc i, drift_locus ! Suc i)"
      by simp
  qed
  note run = cstr_cell_continuation [of drift_locus "replicate (length cstr_ts) [''RuntimeWarning'']"
      drift_solver, OF length_drift_locus l1 c0 cs]
  have c0': "drift_solver (cstr_fn (cstr_ts ! 0)) cstr_cf (1 / 10 ^ 4)
     = Inr ([''RuntimeWarning''], drift_locus ! 0)"
    using c0 p0 by simp
  have c1': "drift_solver (cstr_fn (cstr_ts ! Suc 0)) (drift_locus ! 0) (1 / 10 ^ 4)
     = Inr ([''RuntimeWarning''], drift_locus ! Suc 0)"
    using cs [rule_format, OF p1] p1 by simp
  from c0' p1 c1' drift_locus_first drift_locus_second run show ?thesis by blast
qed

text \<open>
  Claim C4, as stated, says that a failure of the root-finder never halts the loop. A
  root-finder that raises on non-convergence ends the cell with that exception: no locus
  is produced.
\<close>

theorem cstr_cell_raising_solver_halts:
  "cstr_cell raising_solver = Inl NoConvergence"
proof -
  have "cstr_ts \<noteq> []" using length_cstr_ts by auto
  then show ?thesis by (simp add: cstr_cell_def cstr_loop_raising)
qed

text \<open>
  Claim C4, amended. When the root-finder returns a result at each call the loop makes
  (with or without warnings, a root or not: nothing is assumed about the results), the
  loop does not halt: every residence time is processed, each returned result is appended
  to the locus and is the initial guess of the next call, and the warnings only reach
  stderr. When the calls return up to some residence time and the root-finder raises at
  the next one, the cell ends with that exception.
\<close>

theorem cstr_cell_uses_any_returned_result:
  assumes "k \<le> length cstr_ts" and "length xs = k" and "length ws = k"
    and "\<forall>i<k. solver (cstr_fn (cstr_ts ! i)) ((cstr_cf # xs) ! i) (1 / 10 ^ 4)
                  = Inr (ws ! i, xs ! i)"
  shows "(k = length cstr_ts \<longrightarrow>
            cstr_cell solver
              = Inr \<lparr>c_guess = last xs, cstr_cs = xs, stderr = concat ws\<rparr>)
     \<and> (\<forall>e. k < length cstr_ts
             \<and> solver (cstr_fn (cstr_ts ! k)) ((cstr_cf # xs) ! k) (1 / 10 ^ 4) = Inl e \<longrightarrow>
            cstr_cell solver = Inl e)"
proof -
  let ?s0 = "\<lparr>c_guess = cstr_cf, cstr_cs = [], stderr = []\<rparr>"
  have chain: "\<forall>i<k. solver (cstr_fn (cstr_ts ! i)) ((c_guess ?s0 # xs) ! i) (1 / 10 ^ 4)
                  = Inr (ws ! i, xs ! i)"
    using assms(4) by simp
  have all: "cstr_cell solver = Inr \<lparr>c_guess = last xs, cstr_cs = xs, stderr = concat ws\<rparr>"
    if k: "k = length cstr_ts"
  proof -
    have ne: "xs \<noteq> []" using assms(2) k length_cstr_ts by auto
    from cstr_loop_chain [of xs cstr_ts ws solver ?s0] assms(2) assms(3) chain k ne
    show ?thesis by (simp add: cstr_cell_def)
  qed
  have raise: "cstr_cell solver = Inl e"
    if k: "k < length cstr_ts"
      and e: "solver (cstr_fn (cstr_ts ! k)) ((cstr_cf # xs) ! k) (1 / 10 ^ 4) = Inl e" for e
  proof -
    from e have "solver (cstr_fn (cstr_ts ! k)) ((c_guess ?s0 # xs) ! k) (1 / 10 ^ 4) = Inl e"
      by simp
    from cstr_loop_chain_raise [of k cstr_ts xs ws solver ?s0 e, OF k assms(2) assms(3) chain this]
    show ?thesis by (simp add: cstr_cell_def)
  qed
  from all raise show ?thesis by blast
qed

lemma tiring_first:
  "tiring_solver (cstr_fn (cstr_ts ! 0)) cstr_cf (1 / 10 ^ 4)
     = Inr ([''RuntimeWarning''], (1001 / 1000, 1 / 10))"
  by (simp add: tiring_solver_def drift_solver_cstr_fn cstr_cf_val cstr_ts_first)

lemma tiring_second:
  "tiring_solver (cstr_fn (cstr_ts ! Suc 0)) (1001 / 1000, 1 / 10) (1 / 10 ^ 4)
     = Inl NoConvergence"
  by (simp add: tiring_solver_def)

lemma drift_first_not_root: "cstr_fn (cstr_ts ! 0) (drift_locus ! 0) \<noteq> (0, 0)"
  by (simp add: drift_locus_first cstr_ts_first cstr_fn_components)

text \<open>
  The root-finder that drifts by the residual returns, with a warning, a point that is
  not a root, and the cell completes with all its answers in the locus; the root-finder
  that tires returns at the first residence time and raises at the second, which ends the
  cell.
\<close>

theorem cstr_cell_uses_any_returned_result_witness:
  "drift_solver (cstr_fn (cstr_ts ! 0)) cstr_cf (1 / 10 ^ 4)
     = Inr ([''RuntimeWarning''], drift_locus ! 0)
   \<and> cstr_fn (cstr_ts ! 0) (drift_locus ! 0) \<noteq> (0, 0)
   \<and> cstr_cell drift_solver
       = Inr \<lparr>c_guess = last drift_locus, cstr_cs = drift_locus,
              stderr = concat (replicate (length cstr_ts) [''RuntimeWarning''])\<rparr>
   \<and> tiring_solver (cstr_fn (cstr_ts ! 0)) cstr_cf (1 / 10 ^ 4)
       = Inr ([''RuntimeWarning''], (1001 / 1000, 1 / 10))
   \<and> Suc 0 < length cstr_ts
   \<and> tiring_solver (cstr_fn (cstr_ts ! Suc 0)) (1001 / 1000, 1 / 10) (1 / 10 ^ 4)
       = Inl NoConvergence
   \<and> cstr_cell tiring_solver = Inl NoConvergence"
proof -
  have p0: "0 < length cstr_ts" and p1: "Suc 0 < length cstr_ts"
    by (simp_all add: length_cstr_ts)
  have l1: "length (replicate (length cstr_ts) [''RuntimeWarning'']) = length cstr_ts" by simp
  have dchain: "\<forall>i<length cstr_ts.
      drift_solver (cstr_fn (cstr_ts ! i)) ((cstr_cf # drift_locus) ! i) (1 / 10 ^ 4)
      = Inr (replicate (length cstr_ts) [''RuntimeWarning''] ! i, drift_locus ! i)"
    using drift_chain by blast
  have d0: "drift_solver (cstr_fn (cstr_ts ! 0)) cstr_cf (1 / 10 ^ 4)
     = Inr ([''RuntimeWarning''], drift_locus ! 0)"
    using drift_chain [OF p0] p0 by simp
  have full: "cstr_cell drift_solver
       = Inr \<lparr>c_guess = last drift_locus, cstr_cs = drift_locus,
              stderr = concat (replicate (length cstr_ts) [''RuntimeWarning''])\<rparr>"
    using cstr_cell_uses_any_returned_result [of "length cstr_ts" drift_locus
        "replicate (length cstr_ts) [''RuntimeWarning'']" drift_solver,
        OF order_refl length_drift_locus l1 dchain]
    by blast
  have tchain: "\<forall>i<Suc 0.
      tiring_solver (cstr_fn (cstr_ts ! i)) ((cstr_cf # [(1001 / 1000, 1 / 10)]) ! i) (1 / 10 ^ 4)
      = Inr ([[''RuntimeWarning'']] ! i, [(1001 / 1000, 1 / 10)] ! i)"
    using tiring_first by simp
  have k1: "Suc 0 \<le> length cstr_ts" using p1 by simp
  have t1: "tiring_solver (cstr_fn (cstr_ts ! Suc 0))
      ((cstr_cf # [(1001 / 1000, 1 / 10)]) ! Suc 0) (1 / 10 ^ 4) = Inl NoConvergence"
    using tiring_second by simp
  have halt: "cstr_cell tiring_solver = Inl NoConvergence"
    using cstr_cell_uses_any_returned_result [of "Suc 0" "[(1001 / 1000, 1 / 10)]"
        "[[''RuntimeWarning'']]" tiring_solver, OF k1 _ _ tchain] p1 t1
    by simp
  from d0 drift_first_not_root full tiring_first p1 tiring_second halt show ?thesis by blast
qed

section \<open>The interactive DSR plot\<close>

text \<open>
  Claim C7. For every slider setting, \<open>plot_fn\<close> draws the trajectory that the integrator
  returns for the DSR right-hand side \<open>dsr_fn\<close>, started at the feed \<open>[Cf_x, Cf_y]\<close>, on
  the grid \<open>logspace(-3, log10(t_end), 100)\<close>, with the extra argument \<open>(alpha, C0)\<close>
  where \<open>C0\<close> is the fixed CSTR feed \<open>[1.0, 0.1]\<close> whatever \<open>Cf_x\<close> and \<open>Cf_y\<close> are. The
  grid has 100 logarithmically spaced points, starts at \<open>1e-3\<close> and, for a positive
  \<open>t_end\<close>, ends at \<open>t_end\<close>.
\<close>

theorem plot_fn_integrates_dsr:
  "plot_fn odeint locus t_end alpha Cf_x Cf_y =
     draw_figure locus
       (odeint dsr_fn (Cf_x, Cf_y) (logspace (- 3) (log 10 t_end) 100) (alpha, (1.0, 0.1)))
   \<and> length (logspace (- 3) (log 10 t_end) 100) = 100
   \<and> logspace (- 3) (log 10 t_end) 100 =
       map (\<lambda>i. 10 powr (- 3 + real i * ((log 10 t_end - (- 3)) / 99))) [0..<100]
   \<and> hd (logspace (- 3) (log 10 t_end) 100) = 1 / 1000
   \<and> (0 < t_end \<longrightarrow> last (logspace (- 3) (log 10 t_end) 100) = t_end)"
proof -
  have a: "plot_fn odeint locus t_end alpha Cf_x Cf_y =
     draw_figure locus
       (odeint dsr_fn (Cf_x, Cf_y) (logspace (- 3) (log 10 t_end) 100) (alpha, (1.0, 0.1)))"
    by (simp add: plot_fn_def Let_def cstr_cf_def)
  have b: "length (logspace (- 3) (log 10 t_end) 100) = 100"
    by (simp add: length_logspace)
  have c: "logspace (- 3) (log 10 t_end) 100 =
       map (\<lambda>i. 10 powr (- 3 + real i * ((log 10 t_end - (- 3)) / 99))) [0..<100]"
    by (subst logspace_map) simp_all
  have d: "hd (logspace (- 3) (log 10 t_end) 100) = 1 / 1000"
    by (subst logspace_hd) (simp_all add: ten_powr_minus_three)
  have e: "0 < t_end \<longrightarrow> last (logspace (- 3) (log 10 t_end) 100) = t_end"
    by (subst logspace_last) simp_all
  from a b c d e show ?thesis by blast
qed

text \<open>
  The slider setting \<open>t_end = 100\<close>, \<open>alpha = 0\<close>, feed \<open>[1, 0]\<close>, with an integrator that
  keeps the state at the feed and a locus of one point.
\<close>

theorem plot_fn_integrates_dsr_witness:
  "(0 :: real) < 100 \<and> last (logspace (- 3) (log 10 100) 100) = 100
   \<and> plot_fn frozen_odeint [(1, 0)] 100 0 1 0 =
       Inr [Figure, Hold True, Plot [1] [0] ''bx'',
            Plot (replicate 100 1) (replicate 100 0) ''g'',
            Plot [1] [0] ''ro'', Plot [1] [0] ''y^'',
            XLabel ''cA (mol/L)'', YLabel ''cB (mol/L)'', Axis [0, 1, 0, 7 / 10], Show]"
proof -
  have p: "(0 :: real) < 100" by simp
  note inst = plot_fn_integrates_dsr [of frozen_odeint "[(1, 0)]" 100 0 1 0]
  have n: "length (logspace (- 3) (log 10 100) 100) = 100" by (simp add: length_logspace)
  then have ne: "logspace (- 3) (log 10 100) 100 \<noteq> []" by auto
  have m: "map (\<lambda>t. (1::real, 0::real)) (logspace (- 3) (log 10 100) 100) = replicate 100 (1, 0)"
    using n by (simp add: map_replicate_const)
  from inst have run: "plot_fn frozen_odeint [(1, 0)] 100 0 1 0 =
      draw_figure [(1, 0)] (replicate 100 (1, 0))"
    by (simp only: frozen_odeint_def m)
  from inst p have l: "last (logspace (- 3) (log 10 100) 100) = 100" by blast
  show ?thesis
    using p l run by (simp add: draw_figure_def)
qed

section \<open>The bounding hyperplane demo\<close>

text \<open>
  Claim C9. For every slider value \<open>bi\<close>, the vertex enumeration and the hyperplane plot
  are called with the fixed matrix \<open>[[-1,0],[0,-1],[1,1],[-0.1,0.8]]\<close> and the bound
  vector \<open>[0, 0, 1, bi]\<close>: only the last bound depends on the slider.
\<close>

theorem plot_fn_hplanes_constraints:
  "plot_fn_hplanes artools gca bi =
     \<lparr>shown = plotRegion2D artools
                (con2vert artools [[- 1, 0], [0, - 1], [1, 1], [- 0.1, 0.8]] [0, 0, 1, bi])
                (gca (plotHplanes artools [[- 1, 0], [0, - 1], [1, 1], [- 0.1, 0.8]] [0, 0, 1, bi]))
                0.3 True,
      axes = gca (plotHplanes artools [[- 1, 0], [0, - 1], [1, 1], [- 0.1, 0.8]] [0, 0, 1, bi]),
      xlim = [- 0.1, 1.1], ylim = [- 0.1, 1.1],
      xlabel = ''cA (mol/L)'', ylabel = ''cB (mol/L)''\<rparr>"
  by (simp add: plot_fn_hplanes_def Let_def)

end
